theory Spec2Isabelle
  imports Main "HOL-Library.Sublist"
begin

section \<open>Python strings\<close>

text \<open>
  A Python \<^verbatim>\<open>str\<close> is a sequence of Unicode code points, so it is modelled as a list of
  naturals. \<open>lit\<close> turns an ASCII literal of the source into its code points; the few
  characters of the source beyond ASCII (the emoji of the page) are written as their code
  point. An empty string is falsy, every other string is truthy.
\<close>

type_synonym pystr = "nat list"

definition lit :: "string \<Rightarrow> pystr" where
  "lit s = map of_char s"

text \<open>
  \<^verbatim>\<open>str.isspace\<close> for one code point: the code points Python classes as whitespace
  (bidirectional class WS, B or S, or general category Zs).
\<close>

definition isspace :: "nat \<Rightarrow> bool" where
  "isspace c = (c \<in> set [9, 10, 11, 12, 13, 28, 29, 30, 31, 32, 133, 160, 5760,
      8192, 8193, 8194, 8195, 8196, 8197, 8198, 8199, 8200, 8201, 8202,
      8232, 8233, 8239, 8287, 12288])"

text \<open>\<^verbatim>\<open>s.strip()\<close>: whitespace is removed at both ends.\<close>

definition strip :: "pystr \<Rightarrow> pystr" where
  "strip s = rev (dropWhile isspace (rev (dropWhile isspace s)))"

text \<open>
  An exception caught by \<^verbatim>\<open>except Exception as e\<close>: an instance of \<^verbatim>\<open>Exception\<close>,
  of which the program reads only \<^verbatim>\<open>str(e)\<close>. The failures of the provider libraries
  (authentication, network, quota, malformed response) are all of this class.
\<close>

datatype exc = Exception pystr

fun str :: "exc \<Rightarrow> pystr" where
  "str (Exception msg) = msg"

section \<open>Calendar dates and \<^verbatim>\<open>strftime\<close>\<close>

record date =
  year :: nat
  month :: nat
  day :: nat

definition date_less :: "date \<Rightarrow> date \<Rightarrow> bool" where
  "date_less a b =
     (year a < year b \<or> (year a = year b \<and>
       (month a < month b \<or> (month a = month b \<and> day a < day b))))"




text \<open>
  The part of a locale that \<^verbatim>\<open>%B\<close> reads: the full names of the twelve months in
  the locale's time category (\<^verbatim>\<open>LC_TIME\<close>). In the C locale they are the English
  names.
\<close>

record lc_time =
  mon :: "pystr list"

definition c_locale :: lc_time where
  "c_locale =
     \<lparr>mon = [lit ''January'', lit ''February'', lit ''March'', lit ''April'', lit ''May'',
             lit ''June'', lit ''July'', lit ''August'', lit ''September'', lit ''October'',
             lit ''November'', lit ''December'']\<rparr>"

definition month_name :: "lc_time \<Rightarrow> nat \<Rightarrow> pystr" where
  "month_name loc m = (if 1 \<le> m \<and> m \<le> length (mon loc) then mon loc ! (m - 1) else [])"

text \<open>Decimal digits of a number, and zero padding on the left to a given width.\<close>

fun dec :: "nat \<Rightarrow> pystr" where
  "dec n = (if n < 10 then [48 + n] else dec (n div 10) @ [48 + n mod 10])"

definition zfill :: "nat \<Rightarrow> pystr \<Rightarrow> pystr" where
  "zfill w s = replicate (w - length s) 48 @ s"

text \<open>
  The C library's \<^verbatim>\<open>strftime\<close>, which \<^verbatim>\<open>d.strftime(fmt)\<close> calls, under a given
  time category, for the directives this program uses: \<^verbatim>\<open>%B\<close> (the month's full
  name in the locale), \<^verbatim>\<open>%d\<close> (the day of the month, two digits, padded with a zero) and
  \<^verbatim>\<open>%Y\<close> (the year in decimal, which CPython on Linux prints without padding: the
  year 999 has three digits); every other character of the format is copied. Code
  point 37 is the percent sign, 66 is B, 100 is d and 89 is Y.
\<close>

fun strftime_in :: "lc_time \<Rightarrow> date \<Rightarrow> pystr \<Rightarrow> pystr" where
  "strftime_in loc d [] = []"
| "strftime_in loc d [c] = [c]"
| "strftime_in loc d (c # k # fmt) =
     (if c = 37 \<and> k = 66 then month_name loc (month d) @ strftime_in loc d fmt
      else if c = 37 \<and> k = 100 then zfill 2 (dec (day d)) @ strftime_in loc d fmt
      else if c = 37 \<and> k = 89 then dec (year d) @ strftime_in loc d fmt
      else c # strftime_in loc d (k # fmt))"


text \<open>\<^verbatim>\<open>d.strftime(fmt)\<close> as the script runs it: in the C locale.\<close>

definition strftime :: "date \<Rightarrow> pystr \<Rightarrow> pystr" where
  "strftime d fmt = strftime_in c_locale d fmt"


declare dec.simps [simp del]

section \<open>The copy button\<close>

text \<open>
  \<^verbatim>\<open>create_copy_button(text, button_id)\<close>: the f-string of the source, piece by piece
  (code point 128203 is the clipboard emoji, 10003 the check mark). The text is placed
  in the markup as it is, between the tags of the text area whose content the script
  copies.
\<close>

definition create_copy_button :: "pystr \<Rightarrow> pystr \<Rightarrow> pystr" where
  \<open>create_copy_button text button_id =
     lit ''\<newline>'' @
     lit ''        <div style="position: relative; margin-bottom: 15px;">\<newline>'' @
     lit ''            <button \<newline>'' @
     lit ''                onclick="copyText_'' @
     button_id @
     lit ''()"\<newline>'' @
     lit ''                style="\<newline>'' @
     lit ''                    background-color: white;\<newline>'' @
     lit ''                    border: 1px solid #ccc;\<newline>'' @
     lit ''                    padding: 8px 15px;\<newline>'' @
     lit ''                    border-radius: 5px;\<newline>'' @
     lit ''                    cursor: pointer;\<newline>'' @
     lit ''                    display: flex;\<newline>'' @
     lit ''                    align-items: center;\<newline>'' @
     lit ''                    gap: 5px;\<newline>'' @
     lit ''                    font-size: 14px;\<newline>'' @
     lit ''                "\<newline>'' @
     lit ''            >\<newline>'' @
     lit ''                <span style="font-size: 16px;">'' @
     [128203] @
     lit ''</span>\<newline>'' @
     lit ''                <span>Copy</span>\<newline>'' @
     lit ''            </button>\<newline>'' @
     lit ''            <textarea id="textToCopy_'' @
     button_id @
     lit ''" style="position: absolute; top: -9999px;">'' @
     text @
     lit ''</textarea>\<newline>'' @
     lit ''            <script>\<newline>'' @
     lit ''                function copyText_'' @
     button_id @
     lit ''() {\<newline>'' @
     lit ''                    var copyText = document.getElementById("textToCopy_'' @
     button_id @
     lit ''");\<newline>'' @
     lit ''                    copyText.select();\<newline>'' @
     lit ''                    document.execCommand("copy");\<newline>'' @
     lit ''                    var button = event.target;\<newline>'' @
     lit ''                    if (button.tagName === 'SPAN') button = button.parentElement;\<newline>'' @
     lit ''                    var originalText = button.innerHTML;\<newline>'' @
     lit ''                    button.innerHTML = '<span>'' @
     [10003] @
     lit '' Copied!</span>';\<newline>'' @
     lit ''                    setTimeout(function() {\<newline>'' @
     lit ''                        button.innerHTML = originalText;\<newline>'' @
     lit ''                    }, 2000);\<newline>'' @
     lit ''                }\<newline>'' @
     lit ''            </script>\<newline>'' @
     lit ''        </div>\<newline>'' @
     lit ''    ''\<close>

section \<open>The prompts\<close>

text \<open>The local \<^verbatim>\<open>prompt\<close> of \<^verbatim>\<open>generate_post_with_gemini\<close>.\<close>

definition gemini_prompt :: "pystr \<Rightarrow> pystr \<Rightarrow> pystr \<Rightarrow> pystr \<Rightarrow> pystr \<Rightarrow> pystr" where
  \<open>gemini_prompt platform event_name date description venue =
     lit ''Generate a '' @
     platform @
     lit '' post for an event with the following details:\<newline>'' @
     lit ''    Event Name: '' @
     event_name @
     lit ''\<newline>'' @
     lit ''    Date: '' @
     date @
     lit ''\<newline>'' @
     lit ''    Venue: '' @
     venue @
     lit ''\<newline>'' @
     lit ''    Description: '' @
     description @
     lit ''\<newline>'' @
     lit ''    \<newline>'' @
     lit ''    For '' @
     platform @
     lit '', consider these specific requirements:\<newline>'' @
     lit ''    - LinkedIn: Professional tone, include relevant hashtags, structured format\<newline>'' @
     lit ''    - Twitter: Concise (under 280 characters), engaging, include hashtags\<newline>'' @
     lit ''    - WhatsApp: Casual tone, use emojis, clear formatting with event details\<newline>'' @
     lit ''    \<newline>'' @
     lit ''    Generate only the post content without any explanations.''\<close>

text \<open>The local \<^verbatim>\<open>prompt\<close> of \<^verbatim>\<open>generate_post_with_chatgpt\<close>.\<close>

definition chatgpt_prompt :: "pystr \<Rightarrow> pystr \<Rightarrow> pystr \<Rightarrow> pystr \<Rightarrow> pystr \<Rightarrow> pystr" where
  \<open>chatgpt_prompt platform event_name date description venue =
     lit ''Generate a '' @
     platform @
     lit '' post for an event with the following details:\<newline>'' @
     lit ''    Event Name: '' @
     event_name @
     lit ''\<newline>'' @
     lit ''    Date: '' @
     date @
     lit ''\<newline>'' @
     lit ''    Venue: '' @
     venue @
     lit ''\<newline>'' @
     lit ''    Description: '' @
     description @
     lit ''\<newline>'' @
     lit ''    \<newline>'' @
     lit ''    For '' @
     platform @
     lit '', consider these specific requirements:\<newline>'' @
     lit ''    - LinkedIn: Professional tone, include relevant hashtags, structured format\<newline>'' @
     lit ''    - Twitter: Concise (under 280 characters), engaging, include hashtags\<newline>'' @
     lit ''    - WhatsApp: Casual tone, use emojis, clear formatting with event details\<newline>'' @
     lit ''    \<newline>'' @
     lit ''    Generate only the post content without any explanations.''\<close>

section \<open>The providers\<close>

text \<open>
  The two client libraries are outside the program, so the objects they hand out are
  modelled by what the program does with them. A Gemini response has a \<^verbatim>\<open>text\<close>
  property, which raises when the response holds no text; a chat completion has a list
  of choices, each with a message whose content may be \<^verbatim>\<open>None\<close>.
\<close>

record gemini_response =
  response_text :: "exc + pystr"

record gemini_model =
  generate_content :: "pystr \<Rightarrow> exc + gemini_response"

record chat_message =
  content :: "pystr option"

record chat_choice =
  message :: chat_message

record chat_completion =
  choices :: "chat_choice list"

text \<open>
  \<^verbatim>\<open>client.chat.completions.create(model=..., messages=...)\<close>: the messages are a list of
  dictionaries from strings to strings, here association lists.
\<close>

record openai_client =
  chat_completions_create :: "pystr \<Rightarrow> (pystr \<times> pystr) list list \<Rightarrow> exc + chat_completion"

text \<open>The object bound to \<^verbatim>\<open>model\<close> in \<^verbatim>\<open>main\<close>: Python does not type it.\<close>

datatype handle = GenerativeModel gemini_model | OpenAI openai_client

text \<open>
  What the libraries answer in one run: \<^verbatim>\<open>genai.configure\<close> stores the key in the
  library, and \<^verbatim>\<open>genai.GenerativeModel\<close> reads it from there, so the model built may
  depend on the key configured.
\<close>

record env =
  genai_configure :: "pystr \<Rightarrow> exc + unit"
  genai_GenerativeModel :: "pystr \<Rightarrow> pystr \<Rightarrow> exc + gemini_model"
  openai_OpenAI :: "pystr \<Rightarrow> exc + openai_client"

section \<open>Effects\<close>

text \<open>
  One run of the script is the list of its effects, in the order they happen: the
  calls into the page (\<open>St_\<close>, with the arguments the source passes) and the calls into
  the provider libraries (\<open>Call_\<close>). Every function with an effect takes the list so far
  and returns it extended. The containers and columns of the layout are left out.
\<close>

datatype effect =
    St_set_page_config pystr pystr
  | St_markdown pystr bool
  | St_title pystr
  | St_sidebar_title pystr
  | St_sidebar_radio pystr "pystr list"
  | St_sidebar_text_input pystr pystr
  | St_sidebar_markdown pystr
  | St_sidebar_warning pystr
  | St_info pystr
  | St_error pystr
  | St_text_input pystr pystr
  | St_date_input pystr date
  | St_text_area pystr pystr nat
  | St_button pystr pystr bool
  | St_spinner pystr
  | St_subheader pystr
  | St_html pystr
  | Call_genai_configure pystr
  | Call_GenerativeModel pystr
  | Call_OpenAI pystr
  | Call_generate_content pystr
  | Call_chat_completions_create pystr "(pystr \<times> pystr) list list"

text \<open>The calls into a provider library, and among them the remote generation calls.\<close>

fun is_provider_call :: "effect \<Rightarrow> bool" where
  "is_provider_call (Call_genai_configure k) = True"
| "is_provider_call (Call_GenerativeModel n) = True"
| "is_provider_call (Call_OpenAI k) = True"
| "is_provider_call (Call_generate_content p) = True"
| "is_provider_call (Call_chat_completions_create n ms) = True"
| "is_provider_call e = False"

fun is_generation_call :: "effect \<Rightarrow> bool" where
  "is_generation_call (Call_generate_content p) = True"
| "is_generation_call (Call_chat_completions_create n ms) = True"
| "is_generation_call e = False"

section \<open>Setup\<close>

definition setup_gemini :: "env \<Rightarrow> pystr \<Rightarrow> effect list \<Rightarrow> (exc + handle) \<times> effect list" where
  "setup_gemini env api_key tr =
     (case genai_configure env api_key of
        Inl e \<Rightarrow> (Inl e, tr @ [Call_genai_configure api_key])
      | Inr u \<Rightarrow>
          (case genai_GenerativeModel env api_key (lit ''gemini-pro'') of
             Inl e \<Rightarrow>
               (Inl e, tr @ [Call_genai_configure api_key, Call_GenerativeModel (lit ''gemini-pro'')])
           | Inr m \<Rightarrow>
               (Inr (GenerativeModel m),
                tr @ [Call_genai_configure api_key, Call_GenerativeModel (lit ''gemini-pro'')])))"

definition setup_chatgpt :: "env \<Rightarrow> pystr \<Rightarrow> effect list \<Rightarrow> (exc + handle) \<times> effect list" where
  "setup_chatgpt env api_key tr =
     (case openai_OpenAI env api_key of
        Inl e \<Rightarrow> (Inl e, tr @ [Call_OpenAI api_key])
      | Inr client \<Rightarrow> (Inr (OpenAI client), tr @ [Call_OpenAI api_key]))"

section \<open>Generation\<close>

text \<open>
  The \<^verbatim>\<open>try\<close> block of \<^verbatim>\<open>generate_post_with_gemini\<close>: the call, then
  \<^verbatim>\<open>response.text.strip()\<close>. An object without \<^verbatim>\<open>generate_content\<close> raises an
  attribute error before any call is made (code point 39 is the single quote).
\<close>

definition gemini_try :: "handle \<Rightarrow> pystr \<Rightarrow> effect list \<Rightarrow> (exc + pystr) \<times> effect list" where
  "gemini_try model prompt tr =
     (case model of
        OpenAI c \<Rightarrow>
          (Inl (Exception ([39] @ lit ''OpenAI'' @ [39] @ lit '' object has no attribute '' @
                  [39] @ lit ''generate_content'' @ [39])), tr)
      | GenerativeModel m \<Rightarrow>
          (case generate_content m prompt of
             Inl e \<Rightarrow> (Inl e, tr @ [Call_generate_content prompt])
           | Inr response \<Rightarrow>
               (case response_text response of
                  Inl e \<Rightarrow> (Inl e, tr @ [Call_generate_content prompt])
                | Inr t \<Rightarrow> (Inr (strip t), tr @ [Call_generate_content prompt]))))"

definition generate_post_with_gemini ::
    "handle \<Rightarrow> pystr \<Rightarrow> pystr \<Rightarrow> pystr \<Rightarrow> pystr \<Rightarrow> pystr \<Rightarrow> effect list \<Rightarrow> pystr \<times> effect list" where
  "generate_post_with_gemini model platform event_name date description venue tr =
     (case gemini_try model (gemini_prompt platform event_name date description venue) tr of
        (Inr post, tr') \<Rightarrow> (post, tr')
      | (Inl e, tr') \<Rightarrow> (lit ''Error generating post: '' @ str e, tr'))"

text \<open>
  The \<^verbatim>\<open>try\<close> block of \<^verbatim>\<open>generate_post_with_chatgpt\<close>: the call, then
  \<^verbatim>\<open>response.choices[0].message.content.strip()\<close>, where an empty list of choices
  raises an index error and a content of \<^verbatim>\<open>None\<close> an attribute error.
\<close>

definition chatgpt_try :: "handle \<Rightarrow> pystr \<Rightarrow> effect list \<Rightarrow> (exc + pystr) \<times> effect list" where
  "chatgpt_try client prompt tr =
     (case client of
        GenerativeModel m \<Rightarrow>
          (Inl (Exception ([39] @ lit ''GenerativeModel'' @ [39] @ lit '' object has no attribute '' @
                  [39] @ lit ''chat'' @ [39])), tr)
      | OpenAI c \<Rightarrow>
          (let messages = [[(lit ''role'', lit ''user''), (lit ''content'', prompt)]];
               tr' = tr @ [Call_chat_completions_create (lit ''gpt-3.5-turbo'') messages]
           in case chat_completions_create c (lit ''gpt-3.5-turbo'') messages of
                Inl e \<Rightarrow> (Inl e, tr')
              | Inr response \<Rightarrow>
                  (case choices response of
                     [] \<Rightarrow> (Inl (Exception (lit ''list index out of range'')), tr')
                   | choice # rest \<Rightarrow>
                       (case content (message choice) of
                          None \<Rightarrow>
                            (Inl (Exception ([39] @ lit ''NoneType'' @ [39] @
                                    lit '' object has no attribute '' @ [39] @ lit ''strip'' @ [39])), tr')
                        | Some t \<Rightarrow> (Inr (strip t), tr')))))"

definition generate_post_with_chatgpt ::
    "handle \<Rightarrow> pystr \<Rightarrow> pystr \<Rightarrow> pystr \<Rightarrow> pystr \<Rightarrow> pystr \<Rightarrow> effect list \<Rightarrow> pystr \<times> effect list" where
  "generate_post_with_chatgpt client platform event_name date description venue tr =
     (case chatgpt_try client (chatgpt_prompt platform event_name date description venue) tr of
        (Inr post, tr') \<Rightarrow> (post, tr')
      | (Inl e, tr') \<Rightarrow> (lit ''Error generating post: '' @ str e, tr'))"

section \<open>The page\<close>

text \<open>
  Modelled from the spec: the date picker of the hosting page (\<^verbatim>\<open>st.date_input\<close>,
  which is not part of the sources). Its minimum selectable date is \<open>min_value\<close>, and it
  rejects any earlier date: such a choice delivers no date to the script.
\<close>

definition date_input :: "date \<Rightarrow> date \<Rightarrow> date option" where
  "date_input min_value picked = (if date_less picked min_value then None else Some picked)"

text \<open>The head of the page, up to the choice of the service (code point 128241 is the phone emoji).\<close>

definition page_head :: "effect list" where
  \<open>page_head =
     [St_set_page_config (lit ''Social Media Post Generator'') (lit ''wide''),
      St_markdown
         (lit ''\<newline>'' @
          lit ''        <style>\<newline>'' @
          lit ''        .stTextInput > div > div > input {\<newline>'' @
          lit ''            background-color: #f0f2f6;\<newline>'' @
          lit ''        }\<newline>'' @
          lit ''        .stTextArea > div > div > textarea {\<newline>'' @
          lit ''            background-color: #f0f2f6;\<newline>'' @
          lit ''        }\<newline>'' @
          lit ''        .output-container {\<newline>'' @
          lit ''            background-color: #f8f9fa;\<newline>'' @
          lit ''            padding: 20px;\<newline>'' @
          lit ''            border-radius: 10px;\<newline>'' @
          lit ''            border: 1px solid #dee2e6;\<newline>'' @
          lit ''            margin-top: 5px;\<newline>'' @
          lit ''        }\<newline>'' @
          lit ''        .generate-button {\<newline>'' @
          lit ''            background-color: #4CAF50;\<newline>'' @
          lit ''            color: white;\<newline>'' @
          lit ''            padding: 10px 20px;\<newline>'' @
          lit ''            border-radius: 5px;\<newline>'' @
          lit ''            border: none;\<newline>'' @
          lit ''            cursor: pointer;\<newline>'' @
          lit ''            width: 100%;\<newline>'' @
          lit ''        }\<newline>'' @
          lit ''        </style>\<newline>'' @
          lit ''    '') True,
      St_title ([128241] @ lit '' Social Media Post Generator (AI-Powered)''),
      St_markdown (lit ''Generate AI-powered platform-specific posts for your events'') False,
      St_markdown (lit ''---'') False,
      St_sidebar_title (lit ''API Configuration''),
      St_sidebar_radio (lit ''Select AI Service'') [lit ''Gemini'', lit ''ChatGPT'']]\<close>

text \<open>The key input of the sidebar and the link under it.\<close>

definition key_input :: "pystr \<Rightarrow> effect list" where
  "key_input api_choice =
     (if api_choice = lit ''Gemini''
      then [St_sidebar_text_input (lit ''Enter Gemini API Key'') (lit ''password''),
            St_sidebar_markdown (lit ''[Get Gemini API Key](https://makersuite.google.com/app/apikey)'')]
      else [St_sidebar_text_input (lit ''Enter OpenAI API Key'') (lit ''password''),
            St_sidebar_markdown (lit ''[Get OpenAI API Key](https://platform.openai.com/api-keys)'')])"

text \<open>The \<^verbatim>\<open>try\<close> block of \<^verbatim>\<open>main\<close> that sets the provider up.\<close>

definition provider_setup :: "env \<Rightarrow> pystr \<Rightarrow> pystr \<Rightarrow> effect list \<Rightarrow> (exc + handle) \<times> effect list" where
  "provider_setup env api_choice api_key tr =
     (if api_choice = lit ''Gemini'' then setup_gemini env api_key tr
      else setup_chatgpt env api_key tr)"

text \<open>The input widgets of the first column; the date picker gets today's date as its minimum.\<close>

definition input_section :: "date \<Rightarrow> effect list" where
  "input_section today =
     [St_text_input (lit ''Event Name'') (lit ''Enter event name''),
      St_date_input (lit ''Event Date'') today,
      St_text_input (lit ''Venue'') (lit ''Enter event venue''),
      St_text_area (lit ''Event Description'') (lit ''Enter a detailed description of your event'') 150,
      St_button (lit ''Generate Posts'') (lit ''primary'') True]"

text \<open>
  One platform's block of \<^verbatim>\<open>main\<close>. The source writes it three times, with the
  heading, the platform and the button's id changed: the heading, the generation by the
  chosen service, the copy button, and the post between the two tags of its panel.
\<close>

definition platform_block ::
    "pystr \<Rightarrow> handle \<Rightarrow> pystr \<Rightarrow> pystr \<Rightarrow> pystr \<Rightarrow> pystr \<Rightarrow> pystr \<Rightarrow> pystr \<Rightarrow> pystr \<Rightarrow>
     effect list \<Rightarrow> effect list" where
  \<open>platform_block api_choice model heading platform button_id event_name formatted_date description venue tr =
     (let (post, tr') =
            (if api_choice = lit ''Gemini''
             then generate_post_with_gemini model platform event_name formatted_date description venue
                    (tr @ [St_subheader heading])
             else generate_post_with_chatgpt model platform event_name formatted_date description venue
                    (tr @ [St_subheader heading]))
      in tr' @ [St_html (create_copy_button post button_id),
                St_markdown (lit ''<div class="output-container">'') True,
                St_markdown post False,
                St_markdown (lit ''</div>'') True])\<close>

text \<open>
  What the second column shows when nothing is generated: the hint, unless the button
  was pressed, and the example (code point 128072 is the pointing hand).
\<close>

definition example_section :: "effect list" where
  \<open>example_section =
     [St_markdown (lit ''### Example Input'') False,
      St_markdown
         (lit ''\<newline>'' @
          lit ''                **Event Name:** Tech Conference 2025\<newline>'' @
          lit ''                \<newline>'' @
          lit ''                **Date:** January 15, 2025\<newline>'' @
          lit ''                \<newline>'' @
          lit ''                **Venue:** Virtual Event\<newline>'' @
          lit ''                \<newline>'' @
          lit ''                **Description:** Join us for an exciting day of technology insights, networking, and learning from industry experts. Featured topics include AI, Cloud Computing, and Digital Transformation.\<newline>'' @
          lit ''                '') False]\<close>

definition no_results :: "bool \<Rightarrow> effect list" where
  \<open>no_results generate =
     (if \<not> generate
      then [St_info ([128072] @ lit '' Fill in all the event details and click 'Generate Posts'' @ [39])]
      else []) @
     example_section\<close>

text \<open>
  What the second column shows when posts are generated: the date formatted, the
  spinner, and the three platforms' blocks.
\<close>

definition results ::
    "pystr \<Rightarrow> handle \<Rightarrow> pystr \<Rightarrow> date \<Rightarrow> pystr \<Rightarrow> pystr \<Rightarrow> effect list \<Rightarrow> effect list" where
  "results api_choice model event_name date venue description tr =
     (let formatted_date = strftime date (lit ''%B %d, %Y'');
          tr = tr @ [St_spinner (lit ''Generating posts using '' @ api_choice @ lit '' AI...'')];
          tr = platform_block api_choice model (lit ''LinkedIn Post'') (lit ''LinkedIn'')
                 (lit ''linkedin'') event_name formatted_date description venue tr;
          tr = platform_block api_choice model (lit ''Twitter Post'') (lit ''Twitter'')
                 (lit ''twitter'') event_name formatted_date description venue tr;
          tr = platform_block api_choice model (lit ''WhatsApp Post'') (lit ''WhatsApp'')
                 (lit ''whatsapp'') event_name formatted_date description venue tr
      in tr)"

text \<open>
  \<^verbatim>\<open>main\<close>, one run of the script. Its inputs are what the widgets return in this
  run (the service chosen, the key, the event's name, the date picked, the venue, the
  description, whether the button was pressed), today's date and the libraries'
  answers. The test \<^verbatim>\<open>all([event_name, date, venue, description]) and generate\<close> is
  false when a string is empty or when no date was delivered.
\<close>

definition main ::
    "env \<Rightarrow> pystr \<Rightarrow> pystr \<Rightarrow> pystr \<Rightarrow> date \<Rightarrow> date \<Rightarrow> pystr \<Rightarrow> pystr \<Rightarrow> bool \<Rightarrow> effect list" where
  "main env api_choice api_key event_name today picked venue description generate =
     (let tr = page_head @ key_input api_choice in
      if api_key = [] then
        tr @ [St_sidebar_warning (lit ''Please enter your '' @ api_choice @ lit '' API key to continue''),
              St_info ([128072] @ lit '' Enter your '' @ api_choice @
                         lit '' API key in the sidebar to get started'')]
      else
        case provider_setup env api_choice api_key tr of
          (Inl e, tr) \<Rightarrow>
            tr @ [St_error (lit ''Error initializing '' @ api_choice @ lit '': '' @ str e)]
        | (Inr model, tr) \<Rightarrow>
            (let tr = tr @ input_section today in
             case date_input today picked of
               None \<Rightarrow> tr @ no_results generate
             | Some date \<Rightarrow>
                 if event_name \<noteq> [] \<and> venue \<noteq> [] \<and> description \<noteq> [] \<and> generate
                 then results api_choice model event_name date venue description tr
                 else tr @ no_results generate))"

section \<open>What a run shows\<close>

text \<open>
  The post that generation gives for one platform, and the remote call that asks for it,
  both by the service chosen as \<^verbatim>\<open>main\<close> chooses it. The post is computed on the empty
  list of effects: apart from the service's answer nothing else enters it.
\<close>

definition generated_post ::
    "pystr \<Rightarrow> handle \<Rightarrow> pystr \<Rightarrow> pystr \<Rightarrow> pystr \<Rightarrow> pystr \<Rightarrow> pystr \<Rightarrow> pystr" where
  "generated_post api_choice model platform event_name date description venue =
     fst (if api_choice = lit ''Gemini''
          then generate_post_with_gemini model platform event_name date description venue []
          else generate_post_with_chatgpt model platform event_name date description venue [])"

definition generation_call :: "pystr \<Rightarrow> pystr \<Rightarrow> pystr \<Rightarrow> pystr \<Rightarrow> pystr \<Rightarrow> pystr \<Rightarrow> effect" where
  "generation_call api_choice platform event_name date description venue =
     (if api_choice = lit ''Gemini''
      then Call_generate_content (gemini_prompt platform event_name date description venue)
      else Call_chat_completions_create (lit ''gpt-3.5-turbo'')
             [[(lit ''role'', lit ''user''),
               (lit ''content'', chatgpt_prompt platform event_name date description venue)]])"

text \<open>
  What a browser holds as the value of the first text area of a markup: the characters
  after the end of its opening tag and before the first closing tag of a text area.
\<close>

fun after_first :: "pystr \<Rightarrow> pystr \<Rightarrow> pystr" where
  "after_first mark [] = []"
| "after_first mark (c # cs) =
     (if prefix mark (c # cs) then drop (length mark) (c # cs) else after_first mark cs)"

fun before_first :: "pystr \<Rightarrow> pystr \<Rightarrow> pystr" where
  "before_first mark [] = []"
| "before_first mark (c # cs) =
     (if prefix mark (c # cs) then [] else c # before_first mark cs)"

definition textarea_value :: "pystr \<Rightarrow> pystr" where
  "textarea_value markup =
     before_first (lit ''</textarea>'') (after_first (lit ''>'') (after_first (lit ''<textarea'') markup))"

text \<open>
  The same two searches inside one literal of the source, on its characters: the rest of
  the literal after the first occurrence of a mark, and the part before it, when the
  mark occurs in the literal.
\<close>

fun find_after :: "string \<Rightarrow> string \<Rightarrow> string option" where
  "find_after m [] = None"
| "find_after m (c # cs) =
     (if prefix m (c # cs) then Some (drop (length m) (c # cs)) else find_after m cs)"

fun find_before :: "string \<Rightarrow> string \<Rightarrow> string option" where
  "find_before m [] = None"
| "find_before m (c # cs) =
     (if prefix m (c # cs) then Some [] else map_option ((#) c) (find_before m cs))"

text \<open>
  What one platform's block shows when the object bound to \<^verbatim>\<open>model\<close> is the one of
  the service chosen: the heading, the remote call, the copy button bound to the post,
  and the post in its panel.
\<close>

definition shown_block :: "pystr \<Rightarrow> handle \<Rightarrow> pystr \<Rightarrow> pystr \<Rightarrow> pystr \<Rightarrow> pystr \<Rightarrow> pystr \<Rightarrow> pystr \<Rightarrow> pystr \<Rightarrow> effect list" where
  \<open>shown_block api_choice model heading platform button_id event_name date description venue =
     [St_subheader heading,
      generation_call api_choice platform event_name date description venue,
      St_html (create_copy_button (generated_post api_choice model platform event_name date description venue) button_id),
      St_markdown (lit ''<div class="output-container">'') True,
      St_markdown (generated_post api_choice model platform event_name date description venue) False,
      St_markdown (lit ''</div>'') True]\<close>

section \<open>Example runs\<close>

text \<open>
  Stubs of the two libraries for the examples below: Gemini is set up and answers every
  prompt but the LinkedIn one of the example event, for which the call raises; the
  OpenAI client cannot be built. Beside them, a Gemini model that answers every prompt
  and an OpenAI client whose every call raises.
\<close>

definition example_day :: date where
  "example_day = \<lparr>year = 2025, month = 1, day = 15\<rparr>"


definition example_model :: gemini_model where
  "example_model =
     \<lparr>generate_content = (\<lambda>prompt.
        if prompt = gemini_prompt (lit ''LinkedIn'') (lit ''Tech Conference 2025'')
                      (lit ''January 15, 2025'') (lit ''Join us'') (lit ''Virtual Event'')
        then Inl (Exception (lit ''quota exceeded''))
        else Inr \<lparr>response_text = Inr (lit '' See you there! '')\<rparr>)\<rparr>"

definition answering_model :: gemini_model where
  "answering_model =
     \<lparr>generate_content = (\<lambda>prompt. Inr \<lparr>response_text = Inr (lit '' See you there! '')\<rparr>)\<rparr>"

definition example_client :: openai_client where
  "example_client =
     \<lparr>chat_completions_create = (\<lambda>name messages. Inl (Exception (lit ''timed out'')))\<rparr>"

definition example_env :: env where
  "example_env =
     \<lparr>genai_configure = (\<lambda>api_key. Inr ()),
      genai_GenerativeModel = (\<lambda>api_key name. Inr example_model),
      openai_OpenAI = (\<lambda>api_key. Inl (Exception (lit ''no client'')))\<rparr>"



section \<open>Facts about the run\<close>

subsection \<open>Generation and the run of main\<close>

lemma lit_eq_iff: "lit a = lit b \<longleftrightarrow> a = b"
  unfolding lit_def by (simp add: inj_map_eq_map inj_of_char)

lemma fst_gemini: "fst (generate_post_with_gemini model p n d desc v tr) = fst (generate_post_with_gemini model p n d desc v [])"
  by (simp add: generate_post_with_gemini_def gemini_try_def split: handle.splits sum.splits)

lemma fst_chatgpt: "fst (generate_post_with_chatgpt model p n d desc v tr) = fst (generate_post_with_chatgpt model p n d desc v [])"
  by (simp add: generate_post_with_chatgpt_def chatgpt_try_def Let_def split: handle.splits sum.splits list.splits option.splits)

lemma snd_gemini: "snd (generate_post_with_gemini (GenerativeModel m) p n d desc v tr) = tr @ [Call_generate_content (gemini_prompt p n d desc v)]"
  by (simp add: generate_post_with_gemini_def gemini_try_def split: handle.splits sum.splits)

lemma snd_chatgpt: "snd (generate_post_with_chatgpt (OpenAI c) p n d desc v tr) = tr @ [Call_chat_completions_create (lit ''gpt-3.5-turbo'')
             [[(lit ''role'', lit ''user''), (lit ''content'', chatgpt_prompt p n d desc v)]]]"
  by (simp add: generate_post_with_chatgpt_def chatgpt_try_def Let_def split: handle.splits sum.splits list.splits option.splits)

lemma setup_handle:
  "fst (provider_setup env api_choice api_key tr) = Inr model \<Longrightarrow>
     (if api_choice = lit ''Gemini'' then \<exists>m. model = GenerativeModel m else \<exists>c. model = OpenAI c)"
  by (auto simp add: provider_setup_def setup_gemini_def setup_chatgpt_def split: sum.splits if_splits)

lemma setup_trace:
  "filter is_generation_call (snd (provider_setup env api_choice api_key tr)) = filter is_generation_call tr"
  by (auto simp add: provider_setup_def setup_gemini_def setup_chatgpt_def split: sum.splits if_splits)

lemma block_matched:
  assumes "if api_choice = lit ''Gemini'' then \<exists>m. model = GenerativeModel m else \<exists>c. model = OpenAI c"
  shows "platform_block api_choice model heading platform button_id event_name date description venue tr =
     tr @ [St_subheader heading,
           generation_call api_choice platform event_name date description venue,
           St_html (create_copy_button (generated_post api_choice model platform event_name date description venue) button_id),
           St_markdown (lit ''<div class=\"output-container\">'') True,
           St_markdown (generated_post api_choice model platform event_name date description venue) False,
           St_markdown (lit ''</div>'') True]"
proof (cases "api_choice = lit ''Gemini''")
  case True
  then obtain m where m: "model = GenerativeModel m" using assms by auto
  obtain post tr' where g: "generate_post_with_gemini model platform event_name date description venue (tr @ [St_subheader heading]) = (post, tr')"
    by (cases "generate_post_with_gemini model platform event_name date description venue (tr @ [St_subheader heading])")
  have "post = generated_post api_choice model platform event_name date description venue"
    using g fst_gemini[of model platform event_name date description venue "tr @ [St_subheader heading]"] True
    by (simp add: generated_post_def)
  moreover have "tr' = (tr @ [St_subheader heading]) @ [Call_generate_content (gemini_prompt platform event_name date description venue)]"
    using g snd_gemini[of m platform event_name date description venue "tr @ [St_subheader heading]"] m by simp
  ultimately show ?thesis using True g
    by (simp add: platform_block_def generation_call_def)
next
  case False
  then obtain c where c: "model = OpenAI c" using assms by auto
  obtain post tr' where g: "generate_post_with_chatgpt model platform event_name date description venue (tr @ [St_subheader heading]) = (post, tr')"
    by (cases "generate_post_with_chatgpt model platform event_name date description venue (tr @ [St_subheader heading])")
  have "post = generated_post api_choice model platform event_name date description venue"
    using g fst_chatgpt[of model platform event_name date description venue "tr @ [St_subheader heading]"] False
    by (simp add: generated_post_def)
  moreover have "tr' = (tr @ [St_subheader heading]) @ [Call_chat_completions_create (lit ''gpt-3.5-turbo'')
             [[(lit ''role'', lit ''user''), (lit ''content'', chatgpt_prompt platform event_name date description venue)]]]"
    using g snd_chatgpt[of c platform event_name date description venue "tr @ [St_subheader heading]"] c by simp
  ultimately show ?thesis using False g
    by (simp add: platform_block_def generation_call_def)
qed

lemma block_matched':
  assumes "if api_choice = lit ''Gemini'' then \<exists>m. model = GenerativeModel m else \<exists>c. model = OpenAI c"
  shows "platform_block api_choice model heading platform button_id event_name date description venue tr =
     tr @ shown_block api_choice model heading platform button_id event_name date description venue"
  using block_matched[OF assms] by (simp add: shown_block_def)

lemma results_matched:
  assumes "if api_choice = lit ''Gemini'' then \<exists>m. model = GenerativeModel m else \<exists>c. model = OpenAI c"
  shows "results api_choice model event_name date venue description tr =
     tr @ [St_spinner (lit ''Generating posts using '' @ api_choice @ lit '' AI...'')] @
     shown_block api_choice model (lit ''LinkedIn Post'') (lit ''LinkedIn'') (lit ''linkedin'')
        event_name (strftime date (lit ''%B %d, %Y'')) description venue @
     shown_block api_choice model (lit ''Twitter Post'') (lit ''Twitter'') (lit ''twitter'')
        event_name (strftime date (lit ''%B %d, %Y'')) description venue @
     shown_block api_choice model (lit ''WhatsApp Post'') (lit ''WhatsApp'') (lit ''whatsapp'')
        event_name (strftime date (lit ''%B %d, %Y'')) description venue"
  by (simp add: results_def Let_def block_matched'[OF assms])

lemma main_no_key:
  "main env api_choice [] event_name today picked venue description generate =
     page_head @ key_input api_choice @
     [St_sidebar_warning (lit ''Please enter your '' @ api_choice @ lit '' API key to continue''),
      St_info ([128072] @ lit '' Enter your '' @ api_choice @ lit '' API key in the sidebar to get started'')]"
  by (simp add: main_def)

lemma main_setup_fails:
  assumes "api_key \<noteq> []"
    and "provider_setup env api_choice api_key (page_head @ key_input api_choice) = (Inl e, tr)"
  shows "main env api_choice api_key event_name today picked venue description generate =
     tr @ [St_error (lit ''Error initializing '' @ api_choice @ lit '': '' @ str e)]"
  using assms by (simp add: main_def)

lemma main_generates:
  assumes "api_key \<noteq> []"
    and "provider_setup env api_choice api_key (page_head @ key_input api_choice) = (Inr model, tr)"
    and "event_name \<noteq> []" and "\<not> date_less picked today" and "venue \<noteq> []" and "description \<noteq> []"
    and "generate"
  shows "main env api_choice api_key event_name today picked venue description generate =
     results api_choice model event_name picked venue description (tr @ input_section today)"
  using assms by (simp add: main_def date_input_def)

lemma main_no_results:
  assumes "api_key \<noteq> []"
    and "provider_setup env api_choice api_key (page_head @ key_input api_choice) = (Inr model, tr)"
    and "\<not> (event_name \<noteq> [] \<and> \<not> date_less picked today \<and> venue \<noteq> [] \<and> description \<noteq> [] \<and> generate)"
  shows "main env api_choice api_key event_name today picked venue description generate =
     tr @ input_section today @ no_results generate"
  using assms by (auto simp add: main_def date_input_def)

lemma gen_page_head: "filter is_generation_call page_head = []"
  by (simp add: page_head_def)

lemma gen_key_input: "filter is_generation_call (key_input api_choice) = []"
  by (simp add: key_input_def)

lemma gen_input_section: "filter is_generation_call (input_section today) = []"
  by (simp add: input_section_def)

lemma gen_no_results: "filter is_generation_call (no_results generate) = []"
  by (simp add: no_results_def example_section_def)

lemma gen_call: "is_generation_call (generation_call api_choice platform event_name date description venue)"
  by (simp add: generation_call_def)

lemma gen_shown_block:
  "filter is_generation_call (shown_block api_choice model heading platform button_id event_name date description venue) =
     [generation_call api_choice platform event_name date description venue]"
  by (simp add: shown_block_def gen_call)

lemma prov_page_head: "filter is_provider_call page_head = []"
  by (simp add: page_head_def)

lemma prov_key_input: "filter is_provider_call (key_input api_choice) = []"
  by (simp add: key_input_def)

lemma setup_snd_gen:
  "provider_setup env api_choice api_key tr0 = (r, tr) \<Longrightarrow>
     filter is_generation_call tr = filter is_generation_call tr0"
  using setup_trace[of env api_choice api_key tr0] by simp

lemma setup_fst_handle:
  "provider_setup env api_choice api_key tr0 = (Inr model, tr) \<Longrightarrow>
     (if api_choice = lit ''Gemini'' then \<exists>m. model = GenerativeModel m else \<exists>c. model = OpenAI c)"
  using setup_handle[of env api_choice api_key tr0 model] by simp

lemma main_shown:
  assumes "api_key \<noteq> []"
    and "provider_setup env api_choice api_key (page_head @ key_input api_choice) = (Inr model, tr)"
    and "event_name \<noteq> []" and "\<not> date_less picked today" and "venue \<noteq> []" and "description \<noteq> []"
    and "generate"
  shows "main env api_choice api_key event_name today picked venue description generate =
     tr @ input_section today @
     [St_spinner (lit ''Generating posts using '' @ api_choice @ lit '' AI...'')] @
     shown_block api_choice model (lit ''LinkedIn Post'') (lit ''LinkedIn'') (lit ''linkedin'')
        event_name (strftime picked (lit ''%B %d, %Y'')) description venue @
     shown_block api_choice model (lit ''Twitter Post'') (lit ''Twitter'') (lit ''twitter'')
        event_name (strftime picked (lit ''%B %d, %Y'')) description venue @
     shown_block api_choice model (lit ''WhatsApp Post'') (lit ''WhatsApp'') (lit ''whatsapp'')
        event_name (strftime picked (lit ''%B %d, %Y'')) description venue"
  using main_generates[OF assms] results_matched[OF setup_fst_handle[OF assms(2)]] by simp

lemma main_calls_generating:
  assumes "api_key \<noteq> []"
    and "provider_setup env api_choice api_key (page_head @ key_input api_choice) = (Inr model, tr)"
    and "event_name \<noteq> []" and "\<not> date_less picked today" and "venue \<noteq> []" and "description \<noteq> []"
    and "generate"
  shows "filter is_generation_call (main env api_choice api_key event_name today picked venue description generate) =
     [generation_call api_choice (lit ''LinkedIn'') event_name (strftime picked (lit ''%B %d, %Y'')) description venue,
      generation_call api_choice (lit ''Twitter'') event_name (strftime picked (lit ''%B %d, %Y'')) description venue,
      generation_call api_choice (lit ''WhatsApp'') event_name (strftime picked (lit ''%B %d, %Y'')) description venue]"
proof -
  have "filter is_generation_call tr = []"
    using setup_snd_gen[OF assms(2)] by (simp add: gen_page_head gen_key_input)
  then show ?thesis
    by (simp add: main_shown[OF assms] gen_input_section gen_shown_block)
qed

lemma main_calls_none:
  assumes "\<not> (api_key \<noteq> [] \<and> (\<exists>model tr. provider_setup env api_choice api_key (page_head @ key_input api_choice) = (Inr model, tr)) \<and>
     event_name \<noteq> [] \<and> \<not> date_less picked today \<and> venue \<noteq> [] \<and> description \<noteq> [] \<and> generate)"
  shows "filter is_generation_call (main env api_choice api_key event_name today picked venue description generate) = []"
proof (cases "api_key = []")
  case True
  then show ?thesis by (simp add: main_no_key gen_page_head gen_key_input)
next
  case False
  obtain r tr where s: "provider_setup env api_choice api_key (page_head @ key_input api_choice) = (r, tr)"
    by (cases "provider_setup env api_choice api_key (page_head @ key_input api_choice)")
  have tr: "filter is_generation_call tr = []"
    using setup_snd_gen[OF s] by (simp add: gen_page_head gen_key_input)
  show ?thesis
  proof (cases r)
    case (Inl e)
    then show ?thesis using main_setup_fails[OF False, of env api_choice e tr] s tr by simp
  next
    case (Inr model)
    then have "\<not> (event_name \<noteq> [] \<and> \<not> date_less picked today \<and> venue \<noteq> [] \<and> description \<noteq> [] \<and> generate)"
      using assms False s by blast
    then show ?thesis
      using main_no_results[OF False, of env api_choice model tr event_name picked today venue description generate] s Inr tr
      by (simp add: gen_input_section gen_no_results)
  qed
qed

lemma sublist_of_tail: "sublist xs ys \<Longrightarrow> sublist xs (zs @ ys)"
  by (metis append.assoc sublist_def)

lemma gemini_prompt_sublists:
  "sublist platform (gemini_prompt platform event_name date description venue)"
  "sublist event_name (gemini_prompt platform event_name date description venue)"
  "sublist date (gemini_prompt platform event_name date description venue)"
  "sublist venue (gemini_prompt platform event_name date description venue)"
  "sublist description (gemini_prompt platform event_name date description venue)"
  unfolding gemini_prompt_def
  by (intro sublist_of_tail sublist_append_rightI | rule sublist_of_tail)+

lemma chatgpt_prompt_sublists:
  "sublist platform (chatgpt_prompt platform event_name date description venue)"
  "sublist event_name (chatgpt_prompt platform event_name date description venue)"
  "sublist date (chatgpt_prompt platform event_name date description venue)"
  "sublist venue (chatgpt_prompt platform event_name date description venue)"
  "sublist description (chatgpt_prompt platform event_name date description venue)"
  unfolding chatgpt_prompt_def
  by (intro sublist_of_tail sublist_append_rightI | rule sublist_of_tail)+

lemma example_setup_chatgpt:
  "provider_setup example_env (lit ''ChatGPT'') (lit ''sk-1'') (page_head @ key_input (lit ''ChatGPT'')) =
     (Inl (Exception (lit ''no client'')), page_head @ key_input (lit ''ChatGPT'') @ [Call_OpenAI (lit ''sk-1'')])"
  by (simp add: provider_setup_def setup_chatgpt_def example_env_def lit_eq_iff)

lemma example_setup_gemini:
  "provider_setup example_env (lit ''Gemini'') (lit ''key-1'') (page_head @ key_input (lit ''Gemini'')) =
     (Inr (GenerativeModel example_model),
      page_head @ key_input (lit ''Gemini'') @
      [Call_genai_configure (lit ''key-1''), Call_GenerativeModel (lit ''gemini-pro'')])"
  by (simp add: provider_setup_def setup_gemini_def example_env_def)

lemma example_key: "lit ''key-1'' \<noteq> []"
  by (simp add: lit_def)

lemma example_today: "\<not> date_less example_day example_day"
  by (simp add: date_less_def)

lemma example_calls:
  "filter is_generation_call
     (main example_env (lit ''Gemini'') (lit ''key-1'') (lit ''Tech Conference 2025'') example_day example_day
        (lit ''Virtual Event'') (lit ''Join us'') True) \<noteq> []"
proof -
  have n: "lit ''Tech Conference 2025'' \<noteq> []" and v: "lit ''Virtual Event'' \<noteq> []"
    and d: "lit ''Join us'' \<noteq> []"
    by (simp_all add: lit_def)
  show ?thesis
    by (simp add: main_calls_generating[OF example_key example_setup_gemini n example_today v d TrueI])
qed

subsection \<open>The format of the date\<close>

lemma format_literal: "lit ''%B %d, %Y'' = [37, 66, 32, 37, 100, 44, 32, 37, 89]"
  by (simp add: lit_def)

lemma strftime_in_format:
  "strftime_in loc d (lit ''%B %d, %Y'') =
     month_name loc (month d) @ lit '' '' @ zfill 2 (dec (day d)) @ lit '', '' @ dec (year d)"
  by (simp add: format_literal lit_def)

lemma strftime_format:
  "strftime d (lit ''%B %d, %Y'') =
     month_name c_locale (month d) @ lit '' '' @ zfill 2 (dec (day d)) @ lit '', '' @ dec (year d)"
  by (simp add: strftime_def strftime_in_format)

lemma strftime_example:
  "strftime \<lparr>year = 2025, month = 1, day = 15\<rparr> (lit ''%B %d, %Y'') = lit ''January 15, 2025''"
  unfolding strftime_format by (simp add: month_name_def c_locale_def zfill_def dec.simps lit_def)



















subsection \<open>Failures of the remote call\<close>

lemma gemini_call_raises:
  "generate_content m (gemini_prompt platform event_name date description venue) = Inl e \<Longrightarrow>
     generate_post_with_gemini (GenerativeModel m) platform event_name date description venue tr =
       (lit ''Error generating post: '' @ str e,
        tr @ [Call_generate_content (gemini_prompt platform event_name date description venue)])"
  by (simp add: generate_post_with_gemini_def gemini_try_def)

lemma chatgpt_call_raises:
  "chat_completions_create c (lit ''gpt-3.5-turbo'')
       [[(lit ''role'', lit ''user''),
         (lit ''content'', chatgpt_prompt platform event_name date description venue)]] = Inl e \<Longrightarrow>
     generate_post_with_chatgpt (OpenAI c) platform event_name date description venue tr =
       (lit ''Error generating post: '' @ str e,
        tr @ [Call_chat_completions_create (lit ''gpt-3.5-turbo'')
                [[(lit ''role'', lit ''user''),
                  (lit ''content'', chatgpt_prompt platform event_name date description venue)]]])"
  by (simp add: generate_post_with_chatgpt_def chatgpt_try_def Let_def)

lemma gemini_post_own_answer:
  "generate_content m (gemini_prompt platform event_name date description venue) =
     generate_content m' (gemini_prompt platform event_name date description venue) \<Longrightarrow>
   generated_post (lit ''Gemini'') (GenerativeModel m) platform event_name date description venue =
     generated_post (lit ''Gemini'') (GenerativeModel m') platform event_name date description venue"
  by (simp add: generated_post_def generate_post_with_gemini_def gemini_try_def)

lemma chatgpt_post_own_answer:
  "api_choice \<noteq> lit ''Gemini'' \<Longrightarrow>
   chat_completions_create c (lit ''gpt-3.5-turbo'')
       [[(lit ''role'', lit ''user''),
         (lit ''content'', chatgpt_prompt platform event_name date description venue)]] =
     chat_completions_create c' (lit ''gpt-3.5-turbo'')
       [[(lit ''role'', lit ''user''),
         (lit ''content'', chatgpt_prompt platform event_name date description venue)]] \<Longrightarrow>
   generated_post api_choice (OpenAI c) platform event_name date description venue =
     generated_post api_choice (OpenAI c') platform event_name date description venue"
  by (simp add: generated_post_def generate_post_with_chatgpt_def chatgpt_try_def Let_def)

lemma posts_shown:
  assumes "api_key \<noteq> []"
    and "provider_setup env api_choice api_key (page_head @ key_input api_choice) = (Inr model, tr)"
    and "event_name \<noteq> []" and "\<not> date_less picked today" and "venue \<noteq> []" and "description \<noteq> []"
    and "generate"
  shows "St_markdown (generated_post api_choice model (lit ''LinkedIn'') event_name
             (strftime picked (lit ''%B %d, %Y'')) description venue) False \<in>
           set (main env api_choice api_key event_name today picked venue description generate) \<and>
         St_markdown (generated_post api_choice model (lit ''Twitter'') event_name
             (strftime picked (lit ''%B %d, %Y'')) description venue) False \<in>
           set (main env api_choice api_key event_name today picked venue description generate) \<and>
         St_markdown (generated_post api_choice model (lit ''WhatsApp'') event_name
             (strftime picked (lit ''%B %d, %Y'')) description venue) False \<in>
           set (main env api_choice api_key event_name today picked venue description generate)"
  by (simp add: main_shown[OF assms] shown_block_def)

subsection \<open>Searching the markup\<close>

lemma lit_Nil: "lit [] = []"
  by (simp add: lit_def)

lemma lit_Cons: "lit (c # cs) = of_char c # lit cs"
  by (simp add: lit_def)

lemma lit_length: "length (lit s) = length s"
  by (simp add: lit_def)

lemma drop_lit_append: "n \<le> length s \<Longrightarrow> drop n (lit s @ rest) = lit (drop n s) @ rest"
  by (simp add: lit_def drop_map)

lemma prefix_lit_Cons: "prefix (lit (c # cs)) (x # xs) \<longleftrightarrow> of_char c = x \<and> prefix (lit cs) xs"
  by (simp add: lit_Cons)

lemma prefix_lit_append:
  "prefix (lit m) (lit s @ rest) \<longleftrightarrow> prefix m s \<or> (\<exists>u. m = s @ u \<and> prefix (lit u) rest)"
proof (induction m arbitrary: s)
  case Nil
  then show ?case by (simp add: lit_Nil)
next
  case (Cons a m)
  show ?case
  proof (cases s)
    case Nil
    then show ?thesis by (simp add: lit_Nil)
  next
    case (Cons c cs)
    then show ?thesis using Cons.IH[of cs] by (auto simp add: lit_Cons)
  qed
qed

lemma find_after_length: "find_after m s = Some s' \<Longrightarrow> length m \<le> length s"
  by (induction s) (auto dest: prefix_length_le split: if_splits)

lemma find_before_length: "find_before m s = Some p \<Longrightarrow> length m \<le> length s"
  by (induction s arbitrary: p) (auto dest: prefix_length_le split: if_splits)

lemma after_first_found:
  "find_after m s = Some s' \<Longrightarrow> after_first (lit m) (lit s @ rest) = lit s' @ rest"
proof (induction s)
  case Nil
  then show ?case by simp
next
  case (Cons c cs)
  show ?case
  proof (cases "prefix m (c # cs)")
    case True
    then have p: "prefix (lit m) (lit (c # cs) @ rest)" by (simp add: prefix_lit_append)
    have l: "length m \<le> length (c # cs)" using prefix_length_le[OF True] by simp
    have "drop (length (lit m)) (lit (c # cs) @ rest) = lit (drop (length m) (c # cs)) @ rest"
      using l by (simp only: lit_length drop_lit_append)
    then show ?thesis using p True Cons.prems by (simp add: lit_Cons)
  next
    case False
    then have f: "find_after m cs = Some s'" using Cons.prems by simp
    have "\<not> prefix (lit m) (lit (c # cs) @ rest)"
    proof
      assume "prefix (lit m) (lit (c # cs) @ rest)"
      then obtain u where "m = (c # cs) @ u" using False by (auto simp add: prefix_lit_append)
      then show False using find_after_length[OF f] by simp
    qed
    then show ?thesis using Cons.IH[OF f] by (simp add: lit_Cons)
  qed
qed

lemma after_first_absent:
  "find_after m s = None \<Longrightarrow> s = [] \<or> last s \<notin> set m \<Longrightarrow>
     after_first (lit m) (lit s @ rest) = after_first (lit m) rest"
proof (induction s)
  case Nil
  then show ?case by (simp add: lit_Nil)
next
  case (Cons c cs)
  have np: "\<not> prefix m (c # cs)" and f: "find_after m cs = None"
    using Cons.prems(1) by (auto split: if_splits)
  have l: "last (c # cs) \<notin> set m" using Cons.prems(2) by simp
  have "\<not> prefix (lit m) (lit (c # cs) @ rest)"
  proof
    assume "prefix (lit m) (lit (c # cs) @ rest)"
    then obtain u where "m = (c # cs) @ u" using np by (auto simp add: prefix_lit_append)
    then have "last (c # cs) \<in> set m" by (metis Un_iff last_in_set list.distinct(1) set_append)
    then show False using l by simp
  qed
  moreover have "cs = [] \<or> last cs \<notin> set m" using l by (cases cs) auto
  ultimately show ?case using Cons.IH[OF f] by (simp add: lit_Cons)
qed

lemma before_first_found:
  "find_before m s = Some p \<Longrightarrow> before_first (lit m) (lit s @ rest) = lit p"
proof (induction s arbitrary: p)
  case Nil
  then show ?case by simp
next
  case (Cons c cs)
  show ?case
  proof (cases "prefix m (c # cs)")
    case True
    then have "prefix (lit m) (lit (c # cs) @ rest)" by (simp add: prefix_lit_append)
    then show ?thesis using True Cons.prems by (simp add: lit_Cons lit_Nil)
  next
    case False
    then obtain q where f: "find_before m cs = Some q" and p: "p = c # q"
      using Cons.prems by auto
    have "\<not> prefix (lit m) (lit (c # cs) @ rest)"
    proof
      assume "prefix (lit m) (lit (c # cs) @ rest)"
      then obtain u where "m = (c # cs) @ u" using False by (auto simp add: prefix_lit_append)
      then show False using find_before_length[OF f] by simp
    qed
    then show ?thesis using Cons.IH[OF f] p by (simp add: lit_Cons)
  qed
qed

lemma before_first_absent:
  "find_before m s = None \<Longrightarrow> s = [] \<or> last s \<notin> set m \<Longrightarrow>
     before_first (lit m) (lit s @ rest) = lit s @ before_first (lit m) rest"
proof (induction s)
  case Nil
  then show ?case by (simp add: lit_Nil)
next
  case (Cons c cs)
  have np: "\<not> prefix m (c # cs)" and f: "find_before m cs = None"
    using Cons.prems(1) by (auto split: if_splits)
  have l: "last (c # cs) \<notin> set m" using Cons.prems(2) by simp
  have "\<not> prefix (lit m) (lit (c # cs) @ rest)"
  proof
    assume "prefix (lit m) (lit (c # cs) @ rest)"
    then obtain u where "m = (c # cs) @ u" using np by (auto simp add: prefix_lit_append)
    then have "last (c # cs) \<in> set m" by (metis Un_iff last_in_set list.distinct(1) set_append)
    then show False using l by simp
  qed
  moreover have "cs = [] \<or> last cs \<notin> set m" using l by (cases cs) auto
  ultimately show ?case using Cons.IH[OF f] by (simp add: lit_Cons)
qed

lemma after_first_found': 
  "find_after m s \<noteq> None \<Longrightarrow> after_first (lit m) (lit s @ rest) = lit (the (find_after m s)) @ rest"
  using after_first_found by fastforce

lemma before_first_found': 
  "find_before m s \<noteq> None \<Longrightarrow> before_first (lit m) (lit s @ rest) = lit (the (find_before m s))"
  using before_first_found by fastforce

subsection \<open>The example run\<close>

lemma example_prompts_differ:
  "gemini_prompt (lit ''Twitter'') n d desc v \<noteq> gemini_prompt (lit ''LinkedIn'') n d desc v"
  "gemini_prompt (lit ''WhatsApp'') n d desc v \<noteq> gemini_prompt (lit ''LinkedIn'') n d desc v"
  by (simp_all add: gemini_prompt_def lit_def)

lemma example_strip: "strip (lit '' See you there! '') = lit ''See you there!''"
  by (simp add: strip_def isspace_def lit_def)

lemma example_linkedin_raises:
  "generate_content example_model
     (gemini_prompt (lit ''LinkedIn'') (lit ''Tech Conference 2025'') (lit ''January 15, 2025'')
        (lit ''Join us'') (lit ''Virtual Event'')) = Inl (Exception (lit ''quota exceeded''))"
  by (simp add: example_model_def)

lemma example_twitter_answered:
  "generate_content example_model
     (gemini_prompt (lit ''Twitter'') (lit ''Tech Conference 2025'') (lit ''January 15, 2025'')
        (lit ''Join us'') (lit ''Virtual Event'')) =
   generate_content answering_model
     (gemini_prompt (lit ''Twitter'') (lit ''Tech Conference 2025'') (lit ''January 15, 2025'')
        (lit ''Join us'') (lit ''Virtual Event''))"
  by (simp add: example_model_def answering_model_def example_prompts_differ)

lemma example_client_raises:
  "chat_completions_create example_client (lit ''gpt-3.5-turbo'')
     [[(lit ''role'', lit ''user''),
       (lit ''content'', chatgpt_prompt (lit ''LinkedIn'') (lit ''Tech Conference 2025'')
          (lit ''January 15, 2025'') (lit ''Join us'') (lit ''Virtual Event''))]] =
   Inl (Exception (lit ''timed out''))"
  by (simp add: example_client_def)

lemma example_date: "strftime example_day (lit ''%B %d, %Y'') = lit ''January 15, 2025''"
  using strftime_example by (simp add: example_day_def)

lemma example_posts:
  "generated_post (lit ''Gemini'') (GenerativeModel example_model) (lit ''LinkedIn'')
     (lit ''Tech Conference 2025'') (lit ''January 15, 2025'') (lit ''Join us'') (lit ''Virtual Event'') =
     lit ''Error generating post: '' @ lit ''quota exceeded''"
  "generated_post (lit ''Gemini'') (GenerativeModel example_model) (lit ''Twitter'')
     (lit ''Tech Conference 2025'') (lit ''January 15, 2025'') (lit ''Join us'') (lit ''Virtual Event'') =
     lit ''See you there!''"
  "generated_post (lit ''Gemini'') (GenerativeModel example_model) (lit ''WhatsApp'')
     (lit ''Tech Conference 2025'') (lit ''January 15, 2025'') (lit ''Join us'') (lit ''Virtual Event'') =
     lit ''See you there!''"
  by (simp_all add: generated_post_def generate_post_with_gemini_def gemini_try_def example_model_def
        example_prompts_differ example_strip)

section \<open>The claims\<close>

text \<open>
  C1. Whatever the platform, the event's name, the formatted date, the venue and the
  description are, the prompt that either generation function builds contains each of
  the five as a contiguous part, and that prompt is what the function sends to the
  service.
\<close>

theorem prompt_contains_inputs:
  "sublist platform (gemini_prompt platform event_name date description venue) \<and>
   sublist event_name (gemini_prompt platform event_name date description venue) \<and>
   sublist date (gemini_prompt platform event_name date description venue) \<and>
   sublist venue (gemini_prompt platform event_name date description venue) \<and>
   sublist description (gemini_prompt platform event_name date description venue) \<and>
   sublist platform (chatgpt_prompt platform event_name date description venue) \<and>
   sublist event_name (chatgpt_prompt platform event_name date description venue) \<and>
   sublist date (chatgpt_prompt platform event_name date description venue) \<and>
   sublist venue (chatgpt_prompt platform event_name date description venue) \<and>
   sublist description (chatgpt_prompt platform event_name date description venue) \<and>
   snd (generate_post_with_gemini (GenerativeModel m) platform event_name date description venue tr) =
     tr @ [Call_generate_content (gemini_prompt platform event_name date description venue)] \<and>
   snd (generate_post_with_chatgpt (OpenAI c) platform event_name date description venue tr) =
     tr @ [Call_chat_completions_create (lit ''gpt-3.5-turbo'')
             [[(lit ''role'', lit ''user''),
               (lit ''content'', chatgpt_prompt platform event_name date description venue)]]]"
  by (intro conjI gemini_prompt_sublists chatgpt_prompt_sublists snd_gemini snd_chatgpt)

text \<open>
  C2. When the remote call of a generation function raises, the function returns the
  text "Error generating post: " followed by the exception's message, and the call is
  still the only effect. The post of a platform depends on the service only through the
  answer to that platform's own prompt, and in a run that generates, each of the three
  platforms' posts is shown, whatever happened to the other two.
\<close>

theorem generation_failure_is_a_result:
  "(generate_content m (gemini_prompt platform event_name date description venue) = Inl e \<longrightarrow>
      generate_post_with_gemini (GenerativeModel m) platform event_name date description venue tr =
        (lit ''Error generating post: '' @ str e,
         tr @ [Call_generate_content (gemini_prompt platform event_name date description venue)])) \<and>
   (chat_completions_create c (lit ''gpt-3.5-turbo'')
        [[(lit ''role'', lit ''user''),
          (lit ''content'', chatgpt_prompt platform event_name date description venue)]] = Inl e \<longrightarrow>
      generate_post_with_chatgpt (OpenAI c) platform event_name date description venue tr =
        (lit ''Error generating post: '' @ str e,
         tr @ [Call_chat_completions_create (lit ''gpt-3.5-turbo'')
                 [[(lit ''role'', lit ''user''),
                   (lit ''content'', chatgpt_prompt platform event_name date description venue)]]])) \<and>
   (generate_content m (gemini_prompt platform event_name date description venue) =
      generate_content m' (gemini_prompt platform event_name date description venue) \<longrightarrow>
      generated_post (lit ''Gemini'') (GenerativeModel m) platform event_name date description venue =
        generated_post (lit ''Gemini'') (GenerativeModel m') platform event_name date description venue) \<and>
   (api_choice \<noteq> lit ''Gemini'' \<and>
    chat_completions_create c (lit ''gpt-3.5-turbo'')
        [[(lit ''role'', lit ''user''),
          (lit ''content'', chatgpt_prompt platform event_name date description venue)]] =
      chat_completions_create c' (lit ''gpt-3.5-turbo'')
        [[(lit ''role'', lit ''user''),
          (lit ''content'', chatgpt_prompt platform event_name date description venue)]] \<longrightarrow>
      generated_post api_choice (OpenAI c) platform event_name date description venue =
        generated_post api_choice (OpenAI c') platform event_name date description venue) \<and>
   (api_key \<noteq> [] \<and>
    provider_setup env api_choice api_key (page_head @ key_input api_choice) = (Inr model, tr') \<and>
    event_name \<noteq> [] \<and> \<not> date_less picked today \<and> venue \<noteq> [] \<and> description \<noteq> [] \<and> generate \<longrightarrow>
      St_markdown (generated_post api_choice model (lit ''LinkedIn'') event_name
          (strftime picked (lit ''%B %d, %Y'')) description venue) False \<in>
        set (main env api_choice api_key event_name today picked venue description generate) \<and>
      St_markdown (generated_post api_choice model (lit ''Twitter'') event_name
          (strftime picked (lit ''%B %d, %Y'')) description venue) False \<in>
        set (main env api_choice api_key event_name today picked venue description generate) \<and>
      St_markdown (generated_post api_choice model (lit ''WhatsApp'') event_name
          (strftime picked (lit ''%B %d, %Y'')) description venue) False \<in>
        set (main env api_choice api_key event_name today picked venue description generate))"
proof -
  have p5: "St_markdown (generated_post api_choice model (lit ''LinkedIn'') event_name
          (strftime picked (lit ''%B %d, %Y'')) description venue) False \<in>
        set (main env api_choice api_key event_name today picked venue description generate) \<and>
      St_markdown (generated_post api_choice model (lit ''Twitter'') event_name
          (strftime picked (lit ''%B %d, %Y'')) description venue) False \<in>
        set (main env api_choice api_key event_name today picked venue description generate) \<and>
      St_markdown (generated_post api_choice model (lit ''WhatsApp'') event_name
          (strftime picked (lit ''%B %d, %Y'')) description venue) False \<in>
        set (main env api_choice api_key event_name today picked venue description generate)"
    if "api_key \<noteq> [] \<and>
      provider_setup env api_choice api_key (page_head @ key_input api_choice) = (Inr model, tr') \<and>
      event_name \<noteq> [] \<and> \<not> date_less picked today \<and> venue \<noteq> [] \<and> description \<noteq> [] \<and> generate"
    using that posts_shown[of api_key env api_choice model tr' event_name picked today venue description generate]
    by blast
  then have c5: "api_key \<noteq> [] \<and>
      provider_setup env api_choice api_key (page_head @ key_input api_choice) = (Inr model, tr') \<and>
      event_name \<noteq> [] \<and> \<not> date_less picked today \<and> venue \<noteq> [] \<and> description \<noteq> [] \<and> generate \<longrightarrow>
      St_markdown (generated_post api_choice model (lit ''LinkedIn'') event_name
          (strftime picked (lit ''%B %d, %Y'')) description venue) False \<in>
        set (main env api_choice api_key event_name today picked venue description generate) \<and>
      St_markdown (generated_post api_choice model (lit ''Twitter'') event_name
          (strftime picked (lit ''%B %d, %Y'')) description venue) False \<in>
        set (main env api_choice api_key event_name today picked venue description generate) \<and>
      St_markdown (generated_post api_choice model (lit ''WhatsApp'') event_name
          (strftime picked (lit ''%B %d, %Y'')) description venue) False \<in>
        set (main env api_choice api_key event_name today picked venue description generate)"
    by (rule impI)
  show ?thesis
    apply (intro conjI)
        apply (rule impI, erule gemini_call_raises)
       apply (rule impI, erule chatgpt_call_raises)
      apply (rule impI, erule gemini_post_own_answer)
     apply (rule impI, erule conjE, erule (1) chatgpt_post_own_answer)
    apply (rule c5)
    done
qed

theorem generation_failure_is_a_result_witness:
  "generate_content example_model
     (gemini_prompt (lit ''LinkedIn'') (lit ''Tech Conference 2025'') (lit ''January 15, 2025'')
        (lit ''Join us'') (lit ''Virtual Event'')) = Inl (Exception (lit ''quota exceeded'')) \<and>
   generate_post_with_gemini (GenerativeModel example_model) (lit ''LinkedIn'') (lit ''Tech Conference 2025'')
       (lit ''January 15, 2025'') (lit ''Join us'') (lit ''Virtual Event'') [] =
     (lit ''Error generating post: '' @ str (Exception (lit ''quota exceeded'')),
      [] @ [Call_generate_content
         (gemini_prompt (lit ''LinkedIn'') (lit ''Tech Conference 2025'') (lit ''January 15, 2025'')
            (lit ''Join us'') (lit ''Virtual Event''))]) \<and>
   chat_completions_create example_client (lit ''gpt-3.5-turbo'')
     [[(lit ''role'', lit ''user''),
       (lit ''content'', chatgpt_prompt (lit ''LinkedIn'') (lit ''Tech Conference 2025'')
          (lit ''January 15, 2025'') (lit ''Join us'') (lit ''Virtual Event''))]] =
     Inl (Exception (lit ''timed out'')) \<and>
   fst (generate_post_with_chatgpt (OpenAI example_client) (lit ''LinkedIn'') (lit ''Tech Conference 2025'')
       (lit ''January 15, 2025'') (lit ''Join us'') (lit ''Virtual Event'') []) =
     lit ''Error generating post: '' @ lit ''timed out'' \<and>
   generate_content example_model
     (gemini_prompt (lit ''Twitter'') (lit ''Tech Conference 2025'') (lit ''January 15, 2025'')
        (lit ''Join us'') (lit ''Virtual Event'')) =
   generate_content answering_model
     (gemini_prompt (lit ''Twitter'') (lit ''Tech Conference 2025'') (lit ''January 15, 2025'')
        (lit ''Join us'') (lit ''Virtual Event'')) \<and>
   generated_post (lit ''Gemini'') (GenerativeModel example_model) (lit ''Twitter'')
       (lit ''Tech Conference 2025'') (lit ''January 15, 2025'') (lit ''Join us'') (lit ''Virtual Event'') =
     generated_post (lit ''Gemini'') (GenerativeModel answering_model) (lit ''Twitter'')
       (lit ''Tech Conference 2025'') (lit ''January 15, 2025'') (lit ''Join us'') (lit ''Virtual Event'') \<and>
   lit ''ChatGPT'' \<noteq> lit ''Gemini'' \<and>
   generated_post (lit ''ChatGPT'') (OpenAI example_client) (lit ''Twitter'')
       (lit ''Tech Conference 2025'') (lit ''January 15, 2025'') (lit ''Join us'') (lit ''Virtual Event'') =
     generated_post (lit ''ChatGPT'') (OpenAI example_client) (lit ''Twitter'')
       (lit ''Tech Conference 2025'') (lit ''January 15, 2025'') (lit ''Join us'') (lit ''Virtual Event'') \<and>
   lit ''key-1'' \<noteq> [] \<and>
   provider_setup example_env (lit ''Gemini'') (lit ''key-1'') (page_head @ key_input (lit ''Gemini'')) =
     (Inr (GenerativeModel example_model),
      page_head @ key_input (lit ''Gemini'') @
      [Call_genai_configure (lit ''key-1''), Call_GenerativeModel (lit ''gemini-pro'')]) \<and>
   lit ''Tech Conference 2025'' \<noteq> [] \<and> \<not> date_less example_day example_day \<and>
   lit ''Virtual Event'' \<noteq> [] \<and> lit ''Join us'' \<noteq> [] \<and>
   St_markdown (lit ''Error generating post: '' @ lit ''quota exceeded'') False \<in>
     set (main example_env (lit ''Gemini'') (lit ''key-1'') (lit ''Tech Conference 2025'') example_day
            example_day (lit ''Virtual Event'') (lit ''Join us'') True) \<and>
   St_markdown (lit ''See you there!'') False \<in>
     set (main example_env (lit ''Gemini'') (lit ''key-1'') (lit ''Tech Conference 2025'') example_day
            example_day (lit ''Virtual Event'') (lit ''Join us'') True)"
proof -
  have n: "lit ''Tech Conference 2025'' \<noteq> []" and v: "lit ''Virtual Event'' \<noteq> []"
    and d: "lit ''Join us'' \<noteq> []"
    by (simp_all add: lit_def)
  have c: "lit ''ChatGPT'' \<noteq> lit ''Gemini''"
    by (simp add: lit_eq_iff)
  note t = generation_failure_is_a_result
  have 1: "generate_post_with_gemini (GenerativeModel example_model) (lit ''LinkedIn'') (lit ''Tech Conference 2025'')
       (lit ''January 15, 2025'') (lit ''Join us'') (lit ''Virtual Event'') [] =
     (lit ''Error generating post: '' @ str (Exception (lit ''quota exceeded'')),
      [] @ [Call_generate_content
         (gemini_prompt (lit ''LinkedIn'') (lit ''Tech Conference 2025'') (lit ''January 15, 2025'')
            (lit ''Join us'') (lit ''Virtual Event''))])"
    using t[THEN conjunct1, rule_format, OF example_linkedin_raises] .
  have 2: "fst (generate_post_with_chatgpt (OpenAI example_client) (lit ''LinkedIn'') (lit ''Tech Conference 2025'')
       (lit ''January 15, 2025'') (lit ''Join us'') (lit ''Virtual Event'') []) =
     lit ''Error generating post: '' @ lit ''timed out''"
    using t[THEN conjunct2, THEN conjunct1, rule_format, OF example_client_raises, of "[]"] by simp
  have 3: "generated_post (lit ''Gemini'') (GenerativeModel example_model) (lit ''Twitter'')
       (lit ''Tech Conference 2025'') (lit ''January 15, 2025'') (lit ''Join us'') (lit ''Virtual Event'') =
     generated_post (lit ''Gemini'') (GenerativeModel answering_model) (lit ''Twitter'')
       (lit ''Tech Conference 2025'') (lit ''January 15, 2025'') (lit ''Join us'') (lit ''Virtual Event'')"
    using t[THEN conjunct2, THEN conjunct2, THEN conjunct1, rule_format, OF example_twitter_answered] .
  have 5: "St_markdown (generated_post (lit ''Gemini'') (GenerativeModel example_model) (lit ''LinkedIn'')
          (lit ''Tech Conference 2025'') (strftime example_day (lit ''%B %d, %Y'')) (lit ''Join us'')
          (lit ''Virtual Event'')) False \<in>
        set (main example_env (lit ''Gemini'') (lit ''key-1'') (lit ''Tech Conference 2025'') example_day
            example_day (lit ''Virtual Event'') (lit ''Join us'') True) \<and>
      St_markdown (generated_post (lit ''Gemini'') (GenerativeModel example_model) (lit ''Twitter'')
          (lit ''Tech Conference 2025'') (strftime example_day (lit ''%B %d, %Y'')) (lit ''Join us'')
          (lit ''Virtual Event'')) False \<in>
        set (main example_env (lit ''Gemini'') (lit ''key-1'') (lit ''Tech Conference 2025'') example_day
            example_day (lit ''Virtual Event'') (lit ''Join us'') True) \<and>
      St_markdown (generated_post (lit ''Gemini'') (GenerativeModel example_model) (lit ''WhatsApp'')
          (lit ''Tech Conference 2025'') (strftime example_day (lit ''%B %d, %Y'')) (lit ''Join us'')
          (lit ''Virtual Event'')) False \<in>
        set (main example_env (lit ''Gemini'') (lit ''key-1'') (lit ''Tech Conference 2025'') example_day
            example_day (lit ''Virtual Event'') (lit ''Join us'') True)"
    using t[THEN conjunct2, THEN conjunct2, THEN conjunct2, THEN conjunct2, rule_format,
        of "lit ''key-1''" example_env "lit ''Gemini''" "GenerativeModel example_model" _
           "lit ''Tech Conference 2025''" example_day example_day "lit ''Virtual Event''" "lit ''Join us''" True]
      example_key example_setup_gemini n example_today v d
    by blast
  have 6: "St_markdown (lit ''Error generating post: '' @ lit ''quota exceeded'') False \<in>
     set (main example_env (lit ''Gemini'') (lit ''key-1'') (lit ''Tech Conference 2025'') example_day
            example_day (lit ''Virtual Event'') (lit ''Join us'') True)"
    and 7: "St_markdown (lit ''See you there!'') False \<in>
     set (main example_env (lit ''Gemini'') (lit ''key-1'') (lit ''Tech Conference 2025'') example_day
            example_day (lit ''Virtual Event'') (lit ''Join us'') True)"
    using 5 unfolding example_date example_posts by blast+
  show ?thesis
    using example_linkedin_raises 1 example_client_raises 2 example_twitter_answered 3 c
      example_key example_setup_gemini n example_today v d 6 7
    by blast
qed

text \<open>
  C3. With an empty key the run shows the head of the page, the key input and the two
  messages that ask for the key, and it makes no call into a provider library: neither
  a setup call nor a generation call.
\<close>

theorem no_key_no_provider_call:
  "main env api_choice [] event_name today picked venue description generate =
     page_head @ key_input api_choice @
     [St_sidebar_warning (lit ''Please enter your '' @ api_choice @ lit '' API key to continue''),
      St_info ([128072] @ lit '' Enter your '' @ api_choice @ lit '' API key in the sidebar to get started'')] \<and>
   filter is_provider_call (main env api_choice [] event_name today picked venue description generate) = [] \<and>
   length (filter is_provider_call (main env api_choice [] event_name today picked venue description generate)) = 0"
  by (simp add: main_no_key prov_page_head prov_key_input)

text \<open>
  C4, as amended. A run makes generation calls exactly when the key is not empty, the
  setup of the provider succeeds, the name, the venue and the description are not
  empty, the date picked is not before today, and the button was pressed. When the key
  is not empty and the setup succeeds but one of the other conditions fails, the run
  ends with the example, preceded by the hint when the button was not pressed.
\<close>

theorem generation_trigger:
  \<open>(filter is_generation_call
       (main env api_choice api_key event_name today picked venue description generate) \<noteq> [] \<longleftrightarrow>
     api_key \<noteq> [] \<and>
     (\<exists>model tr. provider_setup env api_choice api_key (page_head @ key_input api_choice) = (Inr model, tr)) \<and>
     event_name \<noteq> [] \<and> \<not> date_less picked today \<and> venue \<noteq> [] \<and> description \<noteq> [] \<and> generate) \<and>
   (api_key \<noteq> [] \<and>
    provider_setup env api_choice api_key (page_head @ key_input api_choice) = (Inr model, tr) \<and>
    \<not> (event_name \<noteq> [] \<and> \<not> date_less picked today \<and> venue \<noteq> [] \<and> description \<noteq> [] \<and> generate) \<longrightarrow>
      main env api_choice api_key event_name today picked venue description generate =
        tr @ input_section today @
        (if generate then []
         else [St_info ([128072] @ lit '' Fill in all the event details and click 'Generate Posts'' @ [39])]) @
        example_section)\<close>
proof -
  have none: "\<not> (api_key \<noteq> [] \<and>
     (\<exists>model tr. provider_setup env api_choice api_key (page_head @ key_input api_choice) = (Inr model, tr)) \<and>
     event_name \<noteq> [] \<and> \<not> date_less picked today \<and> venue \<noteq> [] \<and> description \<noteq> [] \<and> generate) \<Longrightarrow>
     filter is_generation_call
       (main env api_choice api_key event_name today picked venue description generate) = []"
    by (rule main_calls_none)
  have some: "filter is_generation_call
       (main env api_choice api_key event_name today picked venue description generate) \<noteq> []"
    if a: "api_key \<noteq> [] \<and>
     (\<exists>model tr. provider_setup env api_choice api_key (page_head @ key_input api_choice) = (Inr model, tr)) \<and>
     event_name \<noteq> [] \<and> \<not> date_less picked today \<and> venue \<noteq> [] \<and> description \<noteq> [] \<and> generate"
  proof -
    from a obtain model' tr' where
      s: "provider_setup env api_choice api_key (page_head @ key_input api_choice) = (Inr model', tr')"
      by blast
    show ?thesis
      using main_calls_generating[OF _ s, of event_name picked today venue description generate] a
      by simp
  qed
  have shown: "main env api_choice api_key event_name today picked venue description generate =
        tr @ input_section today @
        (if generate then []
         else [St_info ([128072] @ lit '' Fill in all the event details and click 'Generate Posts'' @ [39])]) @
        example_section"
    if "api_key \<noteq> [] \<and>
      provider_setup env api_choice api_key (page_head @ key_input api_choice) = (Inr model, tr) \<and>
      \<not> (event_name \<noteq> [] \<and> \<not> date_less picked today \<and> venue \<noteq> [] \<and> description \<noteq> [] \<and> generate)"
    using that
      main_no_results[of api_key env api_choice model tr event_name picked today venue description generate]
    by (simp add: no_results_def)
  show ?thesis
    using none some shown by blast
qed

theorem generation_trigger_witness:
  \<open>lit ''key-1'' \<noteq> [] \<and>
   provider_setup example_env (lit ''Gemini'') (lit ''key-1'') (page_head @ key_input (lit ''Gemini'')) =
     (Inr (GenerativeModel example_model),
      page_head @ key_input (lit ''Gemini'') @
      [Call_genai_configure (lit ''key-1''), Call_GenerativeModel (lit ''gemini-pro'')]) \<and>
   \<not> ([] \<noteq> ([] :: pystr) \<and> \<not> date_less example_day example_day \<and> lit ''Virtual Event'' \<noteq> [] \<and>
      lit ''Join us'' \<noteq> [] \<and> False) \<and>
   main example_env (lit ''Gemini'') (lit ''key-1'') [] example_day example_day
       (lit ''Virtual Event'') (lit ''Join us'') False =
     (page_head @ key_input (lit ''Gemini'') @
      [Call_genai_configure (lit ''key-1''), Call_GenerativeModel (lit ''gemini-pro'')]) @
     input_section example_day @
     (if False then []
      else [St_info ([128072] @ lit '' Fill in all the event details and click 'Generate Posts'' @ [39])]) @
     example_section\<close>
proof -
  have h: "\<not> ([] \<noteq> ([] :: pystr) \<and> \<not> date_less example_day example_day \<and> lit ''Virtual Event'' \<noteq> [] \<and>
      lit ''Join us'' \<noteq> [] \<and> False)"
    by simp
  note t = generation_trigger[of example_env "lit ''Gemini''" "lit ''key-1''" "[]" example_day example_day
      "lit ''Virtual Event''" "lit ''Join us''" False "GenerativeModel example_model"
      "page_head @ key_input (lit ''Gemini'') @
       [Call_genai_configure (lit ''key-1''), Call_GenerativeModel (lit ''gemini-pro'')]", THEN conjunct2]
  show ?thesis
    using example_key example_setup_gemini h t by blast
qed

text \<open>
  C4, as stated, fails: with an empty key nothing is generated, and the example is not
  shown either.
\<close>

theorem no_example_without_key:
  "St_markdown (lit ''### Example Input'') False \<notin>
     set (main example_env (lit ''Gemini'') [] (lit ''Tech Conference 2025'') example_day example_day
            (lit ''Virtual Event'') (lit ''Join us'') True) \<and>
   filter is_generation_call
     (main example_env (lit ''Gemini'') [] (lit ''Tech Conference 2025'') example_day example_day
        (lit ''Virtual Event'') (lit ''Join us'') True) = []"
  by (simp add: main_no_key page_head_def key_input_def lit_eq_iff)

text \<open>
  C5. The copy button places the post in its markup as it is. For a post that holds
  the closing tag of a text area, the value of the button's text area, which is what
  the button copies, is only the part of the post before that tag.
\<close>

theorem copy_stops_at_closing_tag:
  \<open>textarea_value (create_copy_button (lit ''Hi</textarea>there'') (lit ''linkedin'')) = lit ''Hi'' \<and>
   textarea_value (create_copy_button (lit ''See you there!'') (lit ''linkedin'')) = lit ''See you there!''\<close>
  by (simp add: textarea_value_def create_copy_button_def after_first_absent after_first_found'
        before_first_found' before_first_absent prefix_lit_Cons lit_Nil)



text \<open>
  C7. When the key is not empty and the setup of the chosen provider raises, the run ends
  with the error message at the top level of the page, after the effects of the setup,
  and makes no generation call.
\<close>

theorem setup_failure_blocks_generation:
  assumes "api_key \<noteq> []"
    and "provider_setup env api_choice api_key (page_head @ key_input api_choice) = (Inl e, tr)"
  shows "main env api_choice api_key event_name today picked venue description generate =
           tr @ [St_error (lit ''Error initializing '' @ api_choice @ lit '': '' @ str e)] \<and>
         filter is_generation_call
           (main env api_choice api_key event_name today picked venue description generate) = []"
proof -
  have "filter is_generation_call tr = []"
    using setup_snd_gen[OF assms(2)] by (simp add: gen_page_head gen_key_input)
  then show ?thesis by (simp add: main_setup_fails[OF assms])
qed

theorem setup_failure_blocks_generation_witness:
  "lit ''sk-1'' \<noteq> [] \<and>
   provider_setup example_env (lit ''ChatGPT'') (lit ''sk-1'') (page_head @ key_input (lit ''ChatGPT'')) =
     (Inl (Exception (lit ''no client'')), page_head @ key_input (lit ''ChatGPT'') @ [Call_OpenAI (lit ''sk-1'')]) \<and>
   main example_env (lit ''ChatGPT'') (lit ''sk-1'') (lit ''Tech Conference 2025'') example_day example_day
       (lit ''Virtual Event'') (lit ''Join us'') True =
     (page_head @ key_input (lit ''ChatGPT'') @ [Call_OpenAI (lit ''sk-1'')]) @
     [St_error (lit ''Error initializing '' @ lit ''ChatGPT'' @ lit '': '' @ str (Exception (lit ''no client'')))] \<and>
   filter is_generation_call
     (main example_env (lit ''ChatGPT'') (lit ''sk-1'') (lit ''Tech Conference 2025'') example_day example_day
        (lit ''Virtual Event'') (lit ''Join us'') True) = []"
proof -
  have k: "lit ''sk-1'' \<noteq> []" by (simp add: lit_def)
  show ?thesis
    using k example_setup_chatgpt setup_failure_blocks_generation[OF k example_setup_chatgpt]
    by blast
qed

text \<open>
  C8. In a run that generates, the effects after the input widgets are the spinner and
  then, for LinkedIn, Twitter and WhatsApp in this order, the platform's block: its
  heading, its one remote call, its copy button and its post. The generation calls of
  the run are exactly these three, in this order.
\<close>

theorem three_calls_in_order:
  assumes "api_key \<noteq> []"
    and "provider_setup env api_choice api_key (page_head @ key_input api_choice) = (Inr model, tr)"
    and "event_name \<noteq> []" and "\<not> date_less picked today" and "venue \<noteq> []" and "description \<noteq> []"
    and "generate"
  shows "main env api_choice api_key event_name today picked venue description generate =
           tr @ input_section today @
           [St_spinner (lit ''Generating posts using '' @ api_choice @ lit '' AI...'')] @
           shown_block api_choice model (lit ''LinkedIn Post'') (lit ''LinkedIn'') (lit ''linkedin'')
              event_name (strftime picked (lit ''%B %d, %Y'')) description venue @
           shown_block api_choice model (lit ''Twitter Post'') (lit ''Twitter'') (lit ''twitter'')
              event_name (strftime picked (lit ''%B %d, %Y'')) description venue @
           shown_block api_choice model (lit ''WhatsApp Post'') (lit ''WhatsApp'') (lit ''whatsapp'')
              event_name (strftime picked (lit ''%B %d, %Y'')) description venue \<and>
         filter is_generation_call
           (main env api_choice api_key event_name today picked venue description generate) =
           [generation_call api_choice (lit ''LinkedIn'') event_name (strftime picked (lit ''%B %d, %Y'')) description venue,
            generation_call api_choice (lit ''Twitter'') event_name (strftime picked (lit ''%B %d, %Y'')) description venue,
            generation_call api_choice (lit ''WhatsApp'') event_name (strftime picked (lit ''%B %d, %Y'')) description venue]"
  using main_shown[OF assms] main_calls_generating[OF assms] by (rule conjI)

theorem three_calls_in_order_witness:
  "lit ''key-1'' \<noteq> [] \<and>
   provider_setup example_env (lit ''Gemini'') (lit ''key-1'') (page_head @ key_input (lit ''Gemini'')) =
     (Inr (GenerativeModel example_model),
      page_head @ key_input (lit ''Gemini'') @
      [Call_genai_configure (lit ''key-1''), Call_GenerativeModel (lit ''gemini-pro'')]) \<and>
   lit ''Tech Conference 2025'' \<noteq> [] \<and> \<not> date_less example_day example_day \<and>
   lit ''Virtual Event'' \<noteq> [] \<and> lit ''Join us'' \<noteq> [] \<and> True \<and>
   filter is_generation_call
     (main example_env (lit ''Gemini'') (lit ''key-1'') (lit ''Tech Conference 2025'') example_day example_day
        (lit ''Virtual Event'') (lit ''Join us'') True) =
     [Call_generate_content (gemini_prompt (lit ''LinkedIn'') (lit ''Tech Conference 2025'')
        (lit ''January 15, 2025'') (lit ''Join us'') (lit ''Virtual Event'')),
      Call_generate_content (gemini_prompt (lit ''Twitter'') (lit ''Tech Conference 2025'')
        (lit ''January 15, 2025'') (lit ''Join us'') (lit ''Virtual Event'')),
      Call_generate_content (gemini_prompt (lit ''WhatsApp'') (lit ''Tech Conference 2025'')
        (lit ''January 15, 2025'') (lit ''Join us'') (lit ''Virtual Event''))]"
proof -
  have n: "lit ''Tech Conference 2025'' \<noteq> []" and v: "lit ''Virtual Event'' \<noteq> []"
    and d: "lit ''Join us'' \<noteq> []"
    by (simp_all add: lit_def)
  have f: "strftime example_day (lit ''%B %d, %Y'') = lit ''January 15, 2025''"
    by (simp add: strftime_def example_day_def lit_def month_name_def c_locale_def zfill_def dec.simps)
  have c: "filter is_generation_call
     (main example_env (lit ''Gemini'') (lit ''key-1'') (lit ''Tech Conference 2025'') example_day example_day
        (lit ''Virtual Event'') (lit ''Join us'') True) =
     [Call_generate_content (gemini_prompt (lit ''LinkedIn'') (lit ''Tech Conference 2025'')
        (lit ''January 15, 2025'') (lit ''Join us'') (lit ''Virtual Event'')),
      Call_generate_content (gemini_prompt (lit ''Twitter'') (lit ''Tech Conference 2025'')
        (lit ''January 15, 2025'') (lit ''Join us'') (lit ''Virtual Event'')),
      Call_generate_content (gemini_prompt (lit ''WhatsApp'') (lit ''Tech Conference 2025'')
        (lit ''January 15, 2025'') (lit ''Join us'') (lit ''Virtual Event''))]"
    using three_calls_in_order[OF example_key example_setup_gemini n example_today v d TrueI, THEN conjunct2]
    unfolding generation_call_def f by simp
  show ?thesis
    using example_key example_setup_gemini n example_today v d c by blast
qed

text \<open>
  C9. The script hands today's date to the date picker as its minimum, and a run that
  makes a generation call was given a date that is not before today; the prompts of its
  calls carry that date.
\<close>

theorem no_request_before_today:
  assumes "filter is_generation_call
     (main env api_choice api_key event_name today picked venue description generate) \<noteq> []"
  shows "\<not> date_less picked today \<and>
         St_date_input (lit ''Event Date'') today \<in>
           set (main env api_choice api_key event_name today picked venue description generate) \<and>
         filter is_generation_call
           (main env api_choice api_key event_name today picked venue description generate) =
           [generation_call api_choice (lit ''LinkedIn'') event_name (strftime picked (lit ''%B %d, %Y'')) description venue,
            generation_call api_choice (lit ''Twitter'') event_name (strftime picked (lit ''%B %d, %Y'')) description venue,
            generation_call api_choice (lit ''WhatsApp'') event_name (strftime picked (lit ''%B %d, %Y'')) description venue]"
proof -
  have pre: "api_key \<noteq> [] \<and>
     (\<exists>model tr. provider_setup env api_choice api_key (page_head @ key_input api_choice) = (Inr model, tr)) \<and>
     event_name \<noteq> [] \<and> \<not> date_less picked today \<and> venue \<noteq> [] \<and> description \<noteq> [] \<and> generate"
    using assms main_calls_none[of api_key env api_choice event_name picked today venue description generate]
    by blast
  then obtain model tr where
    s: "provider_setup env api_choice api_key (page_head @ key_input api_choice) = (Inr model, tr)"
    by blast
  have "St_date_input (lit ''Event Date'') today \<in> set (input_section today)"
    by (simp add: input_section_def)
  then have "St_date_input (lit ''Event Date'') today \<in>
      set (main env api_choice api_key event_name today picked venue description generate)"
    using main_shown[OF _ s, of event_name picked today venue description generate] pre by simp
  moreover note main_calls_generating[OF _ s, of event_name picked today venue description generate]
  ultimately show ?thesis using pre by simp
qed

theorem no_request_before_today_witness:
  "filter is_generation_call
     (main example_env (lit ''Gemini'') (lit ''key-1'') (lit ''Tech Conference 2025'') example_day example_day
        (lit ''Virtual Event'') (lit ''Join us'') True) \<noteq> [] \<and>
   \<not> date_less example_day example_day \<and>
   St_date_input (lit ''Event Date'') example_day \<in>
     set (main example_env (lit ''Gemini'') (lit ''key-1'') (lit ''Tech Conference 2025'') example_day example_day
        (lit ''Virtual Event'') (lit ''Join us'') True)"
  using example_calls no_request_before_today[OF example_calls] by blast

text \<open>
  C10. On equal inputs the Gemini function and the ChatGPT function build the same prompt,
  character for character.
\<close>

theorem providers_get_the_same_prompt:
  "gemini_prompt platform event_name date description venue =
     chatgpt_prompt platform event_name date description venue"
  by (simp add: gemini_prompt_def chatgpt_prompt_def)

end
